theory Spec2Isabelle
  imports Complex_Main "HOL-Library.Word"
begin

section \<open>Software validation reports of the device lifecycle plugin\<close>

text \<open>
  A shallow embedding of the report code of \<^verbatim>\<open>nautobot_device_lifecycle_mgmt/views.py\<close>
  (\<^verbatim>\<open>ReportOverviewHelper\<close>, \<^verbatim>\<open>ValidatedSoftwareDeviceReportView\<close>,
  \<^verbatim>\<open>ValidatedSoftwareInventoryItemReportView\<close>) and of
  \<^verbatim>\<open>ValidatedSoftwareLCMSerializer.get_assigned_to\<close> in \<^verbatim>\<open>api/serializers.py\<close>.

  Conventions of the model:
  \<^item> a database table is the list of its rows; a queryset is a function of that list;
  \<^item> the filterset built from the request is a predicate on rows (its filters end up in the
    \<^verbatim>\<open>WHERE\<close> clause, so they select rows before any grouping);
  \<^item> a Python exception is the \<open>Inl\<close> branch of a result;
  \<^item> a Python \<^verbatim>\<open>float\<close> is modelled by the rational number it stands for: the rounding
    error of binary floating point is not part of the model.
\<close>

subsection \<open>Python values and exceptions\<close>

datatype val = VNone | VInt int | VFloat rat | VStr string

datatype error =
    KeyError string
  | IndexError
  | ZeroDivisionError
  | TypeError
  | DoesNotExist
  | LibraryError string

type_synonym dict = "string \<rightharpoonup> val"

text \<open>\<^verbatim>\<open>d[k]\<close>: raises \<^verbatim>\<open>KeyError\<close> when the key is absent.\<close>

definition getitem :: "dict \<Rightarrow> string \<Rightarrow> error + val" where
  "getitem d k = (case d k of None \<Rightarrow> Inl (KeyError k) | Some v \<Rightarrow> Inr v)"

text \<open>
  \<^verbatim>\<open>a / b\<close> (true division). The operand types are checked first (\<^verbatim>\<open>None / 0\<close> is a
  \<^verbatim>\<open>TypeError\<close>), then the divisor; the result is always a float.
\<close>

fun numeric :: "val \<Rightarrow> rat option" where
  "numeric (VInt i) = Some (of_int i)"
| "numeric (VFloat x) = Some x"
| "numeric VNone = None"
| "numeric (VStr s) = None"

definition py_truediv :: "val \<Rightarrow> val \<Rightarrow> error + rat" where
  "py_truediv a b =
     (case (numeric a, numeric b) of
        (Some x, Some y) \<Rightarrow> if y = 0 then Inl ZeroDivisionError else Inr (x / y)
      | _ \<Rightarrow> Inl TypeError)"

text \<open>
  \<^verbatim>\<open>round(x, 2)\<close> on a float: the nearest multiple of 1/100, a tie going to the even
  neighbour.
\<close>

definition round_half_even :: "rat \<Rightarrow> int" where
  "round_half_even y =
     (let f = \<lfloor>y\<rfloor>; d = y - of_int f
      in if d < 1 / 2 then f
         else if 1 / 2 < d then f + 1
         else if even f then f else f + 1)"

definition py_round2 :: "rat \<Rightarrow> rat" where
  "py_round2 x = of_int (round_half_even (x * 100)) / 100"

subsection \<open>The validation result tables\<close>

text \<open>
  \<^verbatim>\<open>DeviceSoftwareValidationResult\<close> and \<^verbatim>\<open>InventoryItemSoftwareValidationResult\<close>.
  The models are declared in \<^verbatim>\<open>models.py\<close>, which is not among the sources: a row
  carries the columns that the report code reads, typed as the specification's data
  model describes them (a boolean \<^verbatim>\<open>is_validated\<close>, a nullable reference to the
  installed software, a time of the last run, a run type), and \<^verbatim>\<open>last_updated\<close>, the
  time at which the row was saved. A column reached through a join has the name of its
  lookup path; the platform of a device and the manufacturer of an inventory item are
  nullable. Times are numbers.
\<close>

record validation_result =
  software :: "nat option"
  is_validated :: bool
  last_run :: "nat option"
  run_type :: string
  last_updated :: nat

record device_result = validation_result +
  device :: nat
  device__device_type__model :: string
  device__platform__name :: "string option"

record inventory_item_result = validation_result +
  inventory_item :: nat
  inventory_item__name :: string
  inventory_item__manufacturer__name :: "string option"

subsection \<open>Query expressions\<close>

text \<open>
  Django's \<^verbatim>\<open>Q\<close> objects: a condition on a row, \<^verbatim>\<open>&\<close>, \<^verbatim>\<open>~\<close>, and the empty
  \<^verbatim>\<open>Q()\<close> that selects every row (\<open>Q_all\<close>, also the filter of a \<^verbatim>\<open>Count\<close> that is
  given none). A \<^verbatim>\<open>Q\<close> object is truthy when it has children.
  Python's \<^verbatim>\<open>x and y\<close> is not \<^verbatim>\<open>&\<close>: it evaluates to \<^verbatim>\<open>y\<close> when \<^verbatim>\<open>x\<close> is truthy
  and to \<^verbatim>\<open>x\<close> otherwise.
\<close>

datatype 'r Q = Q_all | Q "'r \<Rightarrow> bool" | Q_and "'r Q" "'r Q" | Q_not "'r Q"

fun q_holds :: "'r Q \<Rightarrow> 'r \<Rightarrow> bool" where
  "q_holds Q_all r = True"
| "q_holds (Q p) r = p r"
| "q_holds (Q_and a b) r = (q_holds a r \<and> q_holds b r)"
| "q_holds (Q_not a) r = (\<not> q_holds a r)"

fun q_bool :: "'r Q \<Rightarrow> bool" where
  "q_bool Q_all = False"
| "q_bool (Q p) = True"
| "q_bool (Q_and a b) = (q_bool a \<or> q_bool b)"
| "q_bool (Q_not a) = q_bool a"

definition py_and :: "'r Q \<Rightarrow> 'r Q \<Rightarrow> 'r Q" where
  "py_and x y = (if q_bool x then y else x)"

text \<open>
  \<^verbatim>\<open>Count(col, filter=q)\<close> over a group of rows: the number of rows that satisfy
  \<^verbatim>\<open>q\<close> and whose \<^verbatim>\<open>col\<close> is not \<^verbatim>\<open>NULL\<close>.
\<close>

definition Count :: "('r \<Rightarrow> 'a option) \<Rightarrow> 'r Q \<Rightarrow> 'r list \<Rightarrow> int" where
  "Count col q rows = int (length (filter (\<lambda>r. col r \<noteq> None \<and> q_holds q r) rows))"

text \<open>
  \<^verbatim>\<open>.values(col).distinct()\<close> followed by \<^verbatim>\<open>.annotate(...)\<close> of aggregates groups the
  rows by \<^verbatim>\<open>col\<close>: one group per distinct value, \<^verbatim>\<open>NULL\<close> included.
\<close>

definition values_distinct :: "('r \<Rightarrow> 'k) \<Rightarrow> 'r list \<Rightarrow> ('k \<times> 'r list) list" where
  "values_distinct col rows =
     map (\<lambda>k. (k, filter (\<lambda>r. col r = k) rows)) (remdups (map col rows))"

text \<open>
  \<^verbatim>\<open>.order_by("-f")\<close>: descending in \<^verbatim>\<open>f\<close>. SQL leaves the order of ties open; the model
  keeps them in their previous order.
\<close>

definition order_by_desc :: "('t \<Rightarrow> 'o::{linorder, uminus}) \<Rightarrow> 't list \<Rightarrow> 't list" where
  "order_by_desc f ts = sort_key (\<lambda>t. - f t) ts"

subsection \<open>The tallies\<close>

record 'k group_tally =
  grp :: 'k
  total :: int
  valid :: int
  invalid :: int
  no_software :: int

record 'k report_row = "'k group_tally" +
  valid_percent :: rat

text \<open>
  The class attribute \<^verbatim>\<open>ValidatedSoftwareDeviceReportView.queryset\<close>, the rows of the
  per device type report table. \<^verbatim>\<open>valid_percent\<close> is computed by the database as
  \<^verbatim>\<open>100 * valid / total\<close> on two integer aggregates; what \<^verbatim>\<open>/\<close> does there depends on
  the database (\<open>db_div\<close>). The \<^verbatim>\<open>invalid\<close> filter is written with Python's
  \<^verbatim>\<open>and\<close>.
\<close>

definition ValidatedSoftwareDeviceReportView_queryset ::
  "(int \<Rightarrow> int \<Rightarrow> rat) \<Rightarrow> device_result list \<Rightarrow> string option report_row list" where
  "ValidatedSoftwareDeviceReportView_queryset db_div rows =
     order_by_desc valid_percent
       (map (\<lambda>(k, g).
          let col = (\<lambda>r. Some (device__device_type__model r));
              t = Count col Q_all g;
              v = Count col (Q (\<lambda>r. is_validated r = True)) g
          in \<lparr>grp = k, total = t, valid = v,
              invalid = Count col (py_and (Q (\<lambda>r. is_validated r = False))
                                          (Q_not (Q (\<lambda>r. software r = None)))) g,
              no_software = Count col (Q (\<lambda>r. software r = None)) g,
              valid_percent = db_div (100 * v) t\<rparr>)
        (values_distinct (\<lambda>r. Some (device__device_type__model r)) rows))"

text \<open>\<^verbatim>\<open>ValidatedSoftwareInventoryItemReportView.queryset\<close>, per inventory item name.\<close>

definition ValidatedSoftwareInventoryItemReportView_queryset ::
  "(int \<Rightarrow> int \<Rightarrow> rat) \<Rightarrow> inventory_item_result list \<Rightarrow> string option report_row list" where
  "ValidatedSoftwareInventoryItemReportView_queryset db_div rows =
     order_by_desc valid_percent
       (map (\<lambda>(k, g).
          let col = (\<lambda>r. Some (inventory_item__name r));
              t = Count col Q_all g;
              v = Count col (Q (\<lambda>r. is_validated r = True)) g
          in \<lparr>grp = k, total = t, valid = v,
              invalid = Count col (Q_and (Q (\<lambda>r. is_validated r = False))
                                         (Q_not (Q (\<lambda>r. software r = None)))) g,
              no_software = Count col (Q (\<lambda>r. software r = None)) g,
              valid_percent = db_div (100 * v) t\<rparr>)
        (values_distinct (\<lambda>r. Some (inventory_item__name r)) rows))"

text \<open>
  The local \<^verbatim>\<open>platform_qs\<close> of \<^verbatim>\<open>ValidatedSoftwareDeviceReportView.setup\<close>: the
  breakdown per platform name given to the bar chart, with the filterset applied.
\<close>

definition device_platform_qs ::
  "(device_result \<Rightarrow> bool) \<Rightarrow> device_result list \<Rightarrow> string option group_tally list" where
  "device_platform_qs filterset rows =
     order_by_desc total
       (map (\<lambda>(k, g).
          \<lparr>grp = k,
           total = Count device__platform__name Q_all g,
           valid = Count device__platform__name (Q (\<lambda>r. is_validated r = True)) g,
           invalid = Count device__platform__name
                       (Q_and (Q (\<lambda>r. is_validated r = False))
                              (Q_not (Q (\<lambda>r. software r = None)))) g,
           no_software = Count device__platform__name (Q (\<lambda>r. software r = None)) g\<rparr>)
        (values_distinct device__platform__name (filter filterset rows)))"

text \<open>
  The local \<^verbatim>\<open>platform_qs\<close> of \<^verbatim>\<open>ValidatedSoftwareInventoryItemReportView.setup\<close>: the
  breakdown per manufacturer name.
\<close>

definition inventory_platform_qs ::
  "(inventory_item_result \<Rightarrow> bool) \<Rightarrow> inventory_item_result list
     \<Rightarrow> string option group_tally list" where
  "inventory_platform_qs filterset rows =
     order_by_desc total
       (map (\<lambda>(k, g).
          \<lparr>grp = k,
           total = Count inventory_item__manufacturer__name Q_all g,
           valid = Count inventory_item__manufacturer__name (Q (\<lambda>r. is_validated r = True)) g,
           invalid = Count inventory_item__manufacturer__name
                       (Q_and (Q (\<lambda>r. is_validated r = False))
                              (Q_not (Q (\<lambda>r. software r = None)))) g,
           no_software = Count inventory_item__manufacturer__name
                           (Q (\<lambda>r. software r = None)) g\<rparr>)
        (values_distinct inventory_item__manufacturer__name (filter filterset rows)))"

subsection \<open>The global tally and its percentage\<close>

text \<open>
  Python dicts are objects: \<^verbatim>\<open>calculate_aggr_percentage\<close> assigns into the dict it is
  given and returns the reference it was given. The store maps a reference to the dict
  it points to.
\<close>

type_synonym ref = nat
type_synonym store = "ref \<Rightarrow> dict"

text \<open>
  \<^verbatim>\<open>ReportOverviewHelper.calculate_aggr_percentage\<close>. The \<^verbatim>\<open>try\<close> block evaluates
  \<^verbatim>\<open>aggr["valid"]\<close>, \<^verbatim>\<open>aggr["total"]\<close>, the division, the product with 100 and the
  rounding, then assigns; only \<^verbatim>\<open>ZeroDivisionError\<close> is caught.
\<close>

definition calculate_aggr_percentage :: "ref \<Rightarrow> store \<Rightarrow> (error + ref) \<times> store" where
  "calculate_aggr_percentage aggr st =
     (case getitem (st aggr) ''valid'' of
        Inl e \<Rightarrow> (Inl e, st)
      | Inr v \<Rightarrow>
          (case getitem (st aggr) ''total'' of
             Inl e \<Rightarrow> (Inl e, st)
           | Inr t \<Rightarrow>
               (case py_truediv v t of
                  Inl ZeroDivisionError \<Rightarrow>
                    (Inr aggr, st(aggr := (st aggr)(''valid_percent'' \<mapsto> VInt 0)))
                | Inl e \<Rightarrow> (Inl e, st)
                | Inr q \<Rightarrow>
                    (Inr aggr,
                     st(aggr := (st aggr)(''valid_percent'' \<mapsto> VFloat (py_round2 (q * 100))))))))"

text \<open>
  A dict that a function has just built is referenced by nobody else: the caller of
  \<^verbatim>\<open>get_global_aggr\<close> sees the value of the dict that \<^verbatim>\<open>calculate_aggr_percentage\<close>
  returns.
\<close>

definition store_of :: "dict \<Rightarrow> store" where
  "store_of d = (\<lambda>_. Map.empty)(0 := d)"

definition on_new_dict :: "(ref \<Rightarrow> store \<Rightarrow> (error + ref) \<times> store) \<Rightarrow> dict \<Rightarrow> error + dict" where
  "on_new_dict f d =
     (case f 0 (store_of d) of
        (Inl e, st) \<Rightarrow> Inl e
      | (Inr r, st) \<Rightarrow> Inr (st r))"

text \<open>
  \<^verbatim>\<open>ValidatedSoftwareDeviceReportView.get_global_aggr\<close>. \<^verbatim>\<open>self.filterset\<close> is a class
  attribute that a subclass may set to \<^verbatim>\<open>None\<close>; otherwise it is applied to the
  request and selects rows.
\<close>

definition ValidatedSoftwareDeviceReportView_get_global_aggr ::
  "(device_result \<Rightarrow> bool) option \<Rightarrow> device_result list \<Rightarrow> error + dict" where
  "ValidatedSoftwareDeviceReportView_get_global_aggr filterset rows =
     (let device_aggr =
        (case filterset of
           None \<Rightarrow> Map.empty
         | Some f \<Rightarrow>
             (let qs = filter f rows; col = (\<lambda>r. Some (device r))
              in [''total'' \<mapsto> VInt (Count col Q_all qs),
                  ''valid'' \<mapsto> VInt (Count col (Q (\<lambda>r. is_validated r = True)) qs),
                  ''invalid'' \<mapsto> VInt (Count col (Q_and (Q (\<lambda>r. is_validated r = False))
                                                        (Q_not (Q (\<lambda>r. software r = None)))) qs),
                  ''no_software'' \<mapsto> VInt (Count col (Q (\<lambda>r. software r = None)) qs),
                  ''name'' \<mapsto> VStr ''Devices'']))
      in on_new_dict calculate_aggr_percentage device_aggr)"


subsection \<open>The time of the last full run\<close>

text \<open>
  \<^verbatim>\<open>QuerySet.latest(field)\<close>: the first row in descending order of the field, and
  \<^verbatim>\<open>DoesNotExist\<close> on an empty queryset. Among rows with the same greatest value the
  database may return any; the model returns the first of them.
\<close>

definition latest :: "('r \<Rightarrow> 't::linorder) \<Rightarrow> 'r list \<Rightarrow> error + 'r" where
  "latest f rows =
     (case rows of
        [] \<Rightarrow> Inl DoesNotExist
      | r # rs \<Rightarrow> Inr (fold (\<lambda>x best. if f best < f x then x else best) rs r))"

text \<open>
  The local \<^verbatim>\<open>report_last_run\<close> of \<^verbatim>\<open>setup\<close>, the same code in both report views.
  \<open>REPORT_FULL_RUN\<close> is \<^verbatim>\<open>choices.ReportRunTypeChoices.REPORT_FULL_RUN\<close>, a constant of
  \<^verbatim>\<open>choices.py\<close>. The \<^verbatim>\<open>try\<close> catches \<^verbatim>\<open>DoesNotExist\<close> only.
\<close>

definition setup_report_last_run ::
  "string \<Rightarrow> 'a validation_result_scheme list \<Rightarrow> error + nat option" where
  "setup_report_last_run REPORT_FULL_RUN rows =
     (case latest last_updated (filter (\<lambda>r. run_type r = REPORT_FULL_RUN) rows) of
        Inl DoesNotExist \<Rightarrow> Inr None
      | Inl e \<Rightarrow> Inl e
      | Inr r \<Rightarrow> Inr (last_run r))"

subsection \<open>The pie chart\<close>

text \<open>
  \<^verbatim>\<open>base64.b64encode\<close>: three bytes become four characters of the alphabet, the last
  group is padded with \<^verbatim>\<open>=\<close>. The result is ASCII and is written as a string.
\<close>

definition b64_alphabet :: string where
  "b64_alphabet = ''ABCDEFGHIJKLMNOPQRSTUVWXYZabcdefghijklmnopqrstuvwxyz0123456789+/''"

definition b64_char :: "nat \<Rightarrow> char" where
  "b64_char n = b64_alphabet ! (n mod 64)"

fun b64encode :: "8 word list \<Rightarrow> string" where
  "b64encode [] = []"
| "b64encode [a] =
     (let n = unat a * 65536
      in [b64_char (n div 262144), b64_char (n div 4096), CHR ''='', CHR ''=''])"
| "b64encode [a, b] =
     (let n = unat a * 65536 + unat b * 256
      in [b64_char (n div 262144), b64_char (n div 4096), b64_char (n div 64), CHR ''=''])"
| "b64encode (a # b # c # rest) =
     (let n = unat a * 65536 + unat b * 256 + unat c
      in [b64_char (n div 262144), b64_char (n div 4096), b64_char (n div 64), b64_char n]
         @ b64encode rest)"

text \<open>
  \<^verbatim>\<open>urllib.parse.quote\<close> with its default \<^verbatim>\<open>safe="/"\<close>: letters, digits and
  \<^verbatim>\<open>_.-~/\<close> are kept, every other byte becomes \<^verbatim>\<open>%XX\<close> in upper case hexadecimal.
\<close>

definition quote_safe :: string where
  "quote_safe =
     ''ABCDEFGHIJKLMNOPQRSTUVWXYZabcdefghijklmnopqrstuvwxyz0123456789_.-~/''"

definition hex_digit :: "nat \<Rightarrow> char" where
  "hex_digit n = ''0123456789ABCDEF'' ! (n mod 16)"

definition quote_byte :: "char \<Rightarrow> string" where
  "quote_byte c =
     (if c \<in> set quote_safe then [c]
      else [CHR ''%'', hex_digit (of_char c div 16), hex_digit (of_char c)])"

definition quote :: "string \<Rightarrow> string" where
  "quote s = concat (map quote_byte s)"

text \<open>
  The plotting library. What the code asks of it is recorded as a list of calls, the
  state of \<^verbatim>\<open>pyplot\<close>; whether \<^verbatim>\<open>pie\<close> raises on given sizes, and the bytes that
  \<^verbatim>\<open>savefig\<close> writes for the figure that the calls have built, are the library's.
\<close>

datatype plot_call =
    Subplots
  | Pie "val list" "string list"
  | AxisEqual
  | Title val
  | Savefig

record plotlib =
  pie :: "val list \<Rightarrow> string list \<Rightarrow> error option"
  savefig :: "plot_call list \<Rightarrow> error + 8 word list"

record pie_chart_attrs =
  aggr_labels :: "string list"
  chart_labels :: "string list"

text \<open>\<^verbatim>\<open>[aggr[aggr_label] for aggr_label in labels]\<close>: the first absent key raises.\<close>

fun getitems :: "dict \<Rightarrow> string list \<Rightarrow> error + val list" where
  "getitems d [] = Inr []"
| "getitems d (k # ks) =
     (case getitem d k of
        Inl e \<Rightarrow> Inl e
      | Inr v \<Rightarrow> (case getitems d ks of Inl e \<Rightarrow> Inl e | Inr vs \<Rightarrow> Inr (v # vs)))"

text \<open>
  \<^verbatim>\<open>ReportOverviewHelper.plot_piechart_visual\<close>. The result is the returned value
  (\<open>None\<close> for Python's \<^verbatim>\<open>None\<close>) or the exception, with the calls made to the plotting
  library appended to its state.
\<close>

definition plot_piechart_visual ::
  "plotlib \<Rightarrow> dict \<Rightarrow> pie_chart_attrs \<Rightarrow> plot_call list
     \<Rightarrow> (error + string option) \<times> plot_call list" where
  "plot_piechart_visual lib aggr attrs plt =
     (case aggr_labels attrs of
        [] \<Rightarrow> (Inl IndexError, plt)
      | l0 # _ \<Rightarrow>
          (case getitem aggr l0 of
             Inl e \<Rightarrow> (Inl e, plt)
           | Inr VNone \<Rightarrow> (Inr None, plt)
           | Inr _ \<Rightarrow>
               (case getitems aggr (aggr_labels attrs) of
                  Inl e \<Rightarrow> (Inl e, plt)
                | Inr sizes \<Rightarrow>
                    (let plt1 = plt @ [Subplots, Pie sizes (chart_labels attrs)]
                     in case pie lib sizes (chart_labels attrs) of
                          Some e \<Rightarrow> (Inl e, plt1)
                        | None \<Rightarrow>
                            (case getitem aggr ''name'' of
                               Inl e \<Rightarrow> (Inl e, plt1 @ [AxisEqual])
                             | Inr nm \<Rightarrow>
                                 (let plt2 = plt1 @ [AxisEqual, Title nm, Savefig]
                                  in case savefig lib plt2 of
                                       Inl e \<Rightarrow> (Inl e, plt2)
                                     | Inr png \<Rightarrow>
                                         (Inr (Some (quote (b64encode png))), plt2)))))))"

text \<open>The \<^verbatim>\<open>pie_chart_attrs\<close> that both \<^verbatim>\<open>setup\<close> methods pass.\<close>

definition setup_pie_chart_attrs :: pie_chart_attrs where
  "setup_pie_chart_attrs =
     \<lparr>aggr_labels = [''valid'', ''invalid'', ''no_software''],
      chart_labels = [''Valid'', ''Invalid'', ''No Software'']\<rparr>"

subsection \<open>The assigned object of a validated software record\<close>

text \<open>
  The columns of \<^verbatim>\<open>ValidatedSoftwareLCM\<close> that the polymorphic reference is made of:
  a content type (\<^verbatim>\<open>dcim.device\<close>, \<^verbatim>\<open>dcim.devicetype\<close> or \<^verbatim>\<open>dcim.inventoryitem\<close>)
  and the identifier of an object of that type.
\<close>

record ValidatedSoftwareLCM =
  assigned_to_content_type :: "string option"
  assigned_to_object_id :: "nat option"

text \<open>
  Modelled from the spec: the attribute \<^verbatim>\<open>assigned_to\<close> of \<^verbatim>\<open>ValidatedSoftwareLCM\<close>,
  declared in \<^verbatim>\<open>models.py\<close>, which is not among the sources. It resolves the pair of
  content type and object identifier in the database and is null when the record is
  unassigned or the referenced object no longer exists.
\<close>

definition assigned_to :: "(string \<times> nat \<rightharpoonup> 'obj) \<Rightarrow> ValidatedSoftwareLCM \<Rightarrow> 'obj option" where
  "assigned_to db obj =
     (case (assigned_to_content_type obj, assigned_to_object_id obj) of
        (Some ct, Some oid) \<Rightarrow> db (ct, oid)
      | _ \<Rightarrow> None)"

text \<open>
  \<^verbatim>\<open>ValidatedSoftwareLCMSerializer.get_assigned_to\<close>. \<open>get_serializer_for_model\<close> is
  Nautobot's lookup of the nested serializer of an object's model, which raises when
  there is none; a serializer turns a request and an object into its data.
  \<open>context\<close> is \<^verbatim>\<open>self.context\<close>.
\<close>

definition get_assigned_to ::
  "('obj \<Rightarrow> error + ('req \<Rightarrow> 'obj \<Rightarrow> 'json)) \<Rightarrow> (string \<rightharpoonup> 'req) \<Rightarrow> (string \<times> nat \<rightharpoonup> 'obj)
     \<Rightarrow> ValidatedSoftwareLCM \<Rightarrow> error + 'json option" where
  "get_assigned_to get_serializer_for_model context db obj =
     (case assigned_to db obj of
        None \<Rightarrow> Inr None
      | Some target \<Rightarrow>
          (case get_serializer_for_model target of
             Inl e \<Rightarrow> Inl e
           | Inr serializer \<Rightarrow>
               (case context ''request'' of
                  None \<Rightarrow> Inl (KeyError ''request'')
                | Some request \<Rightarrow> Inr (Some (serializer request target)))))"

subsection \<open>Concrete tables and tallies\<close>

text \<open>
  What \<^verbatim>\<open>/\<close> does on two integers in the database: PostgreSQL and SQLite divide
  integers and truncate; a database that divided exactly would give the quotient.
\<close>

definition db_div_integer :: "int \<Rightarrow> int \<Rightarrow> rat" where
  "db_div_integer a b = of_int (a div b)"


text \<open>A device whose software is known and validated.\<close>

definition validated_device :: device_result where
  "validated_device =
     \<lparr>software = Some 1, is_validated = True, last_run = Some 1,
      run_type = ''full-report-run'', last_updated = 1,
      device = 1, device__device_type__model = ''MX480'',
      device__platform__name = Some ''junos''\<rparr>"

text \<open>
  Four devices: one \<^verbatim>\<open>MX480\<close>, validated, and three \<^verbatim>\<open>QFX5100\<close> of which one
  is validated and two run software that is not.
\<close>

definition example_devices :: "device_result list" where
  "example_devices =
     [validated_device,
      validated_device\<lparr>device := 2, device__device_type__model := ''QFX5100''\<rparr>,
      validated_device\<lparr>device := 3, device__device_type__model := ''QFX5100'',
                       software := Some 2, is_validated := False\<rparr>,
      validated_device\<lparr>device := 4, device__device_type__model := ''QFX5100'',
                       software := Some 2, is_validated := False\<rparr>]"




text \<open>
  Tallies as \<^verbatim>\<open>aggregate\<close> returns them, \<^verbatim>\<open>name\<close> added: the example of the
  specification, and the tally of an empty table.
\<close>

definition example_aggregate :: dict where
  "example_aggregate =
     [''total'' \<mapsto> VInt 10, ''valid'' \<mapsto> VInt 7, ''invalid'' \<mapsto> VInt 2,
      ''no_software'' \<mapsto> VInt 1, ''name'' \<mapsto> VStr ''Devices'']"

definition all_zero_aggregate :: dict where
  "all_zero_aggregate =
     [''total'' \<mapsto> VInt 0, ''valid'' \<mapsto> VInt 0, ''invalid'' \<mapsto> VInt 0,
      ''no_software'' \<mapsto> VInt 0, ''name'' \<mapsto> VStr ''Devices'']"


text \<open>
  Validation results of four runs: three full runs, updated at times 100, 300 and 200,
  and a later run of another type, updated at time 900.
\<close>

definition full_run :: validation_result where
  "full_run =
     \<lparr>software = Some 1, is_validated = True, last_run = Some 100,
      run_type = ''full-report-run'', last_updated = 100\<rparr>"

definition example_runs :: "validation_result list" where
  "example_runs =
     [full_run,
      full_run\<lparr>last_run := Some 300, last_updated := 300\<rparr>,
      full_run\<lparr>last_run := Some 900, last_updated := 900, run_type := ''single-object-run''\<rparr>,
      full_run\<lparr>last_run := Some 200, last_updated := 200\<rparr>]"

definition partial_runs_only :: "validation_result list" where
  "partial_runs_only =
     [full_run\<lparr>last_run := Some 900, last_updated := 900, run_type := ''single-object-run''\<rparr>]"

text \<open>
  Tallies for the pie chart: the tally of an empty table and the specification's
  example, both with their percentage; a tally whose counts are null; a dict that has no
  \<^verbatim>\<open>valid\<close>.
\<close>

definition all_zero_tally :: dict where
  "all_zero_tally = all_zero_aggregate(''valid_percent'' \<mapsto> VInt 0)"

definition null_tally :: dict where
  "null_tally =
     [''total'' \<mapsto> VInt 0, ''valid'' \<mapsto> VNone, ''invalid'' \<mapsto> VNone,
      ''no_software'' \<mapsto> VNone, ''name'' \<mapsto> VStr ''Devices'']"

definition tally_without_valid :: dict where
  "tally_without_valid = [''total'' \<mapsto> VInt 0, ''name'' \<mapsto> VStr ''Devices'']"

definition example_tally :: dict where
  "example_tally = example_aggregate(''valid_percent'' \<mapsto> VFloat 70)"

text \<open>
  A plotting library that draws every pie and writes four bytes, the start of the PNG
  signature.
\<close>

definition png_plotlib :: plotlib where
  "png_plotlib = \<lparr>pie = (\<lambda>sizes labels. None), savefig = (\<lambda>calls. Inr [137, 80, 78, 71])\<rparr>"

text \<open>
  A database with one device, a nested serializer that gives an object's URL and name,
  and two validated software records: one assigned to the device, one to a device that
  is not in the database.
\<close>

definition example_db :: "string \<times> nat \<rightharpoonup> string" where
  "example_db = [(''dcim.device'', 1) \<mapsto> ''core-router-1'']"

definition example_nested_serializer ::
  "string \<Rightarrow> error + (string \<Rightarrow> string \<Rightarrow> (string \<times> string) list)" where
  "example_nested_serializer target =
     Inr (\<lambda>request obj. [(''url'', request @ ''/dcim/devices/'' @ obj), (''name'', obj)])"

definition example_context :: "string \<rightharpoonup> string" where
  "example_context = [''request'' \<mapsto> ''https://nautobot.example/api'']"

definition policy_for_device :: ValidatedSoftwareLCM where
  "policy_for_device =
     \<lparr>assigned_to_content_type = Some ''dcim.device'', assigned_to_object_id = Some 1\<rparr>"

definition policy_for_deleted_device :: ValidatedSoftwareLCM where
  "policy_for_deleted_device =
     \<lparr>assigned_to_content_type = Some ''dcim.device'', assigned_to_object_id = Some 2\<rparr>"

section \<open>Properties\<close>

subsection \<open>Auxiliary facts\<close>

lemma sorted_rev_order_by_desc:
  fixes f :: "'t \<Rightarrow> 'o::linordered_ab_group_add"
  shows "sorted (rev (map f (order_by_desc f ts)))"
proof -
  have "sorted (map (\<lambda>t. - f t) (sort_key (\<lambda>t. - f t) ts))"
    by (rule sorted_sort_key)
  then have "sorted_wrt (\<lambda>x y. f y \<le> f x) (sort_key (\<lambda>t. - f t) ts)"
    by (simp add: sorted_wrt_map)
  then show ?thesis
    by (simp add: order_by_desc_def sorted_wrt_rev sorted_wrt_map)
qed

subsection \<open>The counts of a tally\<close>

text \<open>
  C1 (the code departs from the claim). The claim: in every tally, \<^verbatim>\<open>invalid\<close> counts
  exactly the rows that are not validated and have software. In the per device type
  report table the filter of \<^verbatim>\<open>invalid\<close> is
  \<^verbatim>\<open>Q(is_validated=False) and ~Q(software=None)\<close>, which Python evaluates to
  \<^verbatim>\<open>~Q(software=None)\<close> alone. For a table that holds one validated device with
  software, the row of its device type has \<^verbatim>\<open>invalid = 1\<close>, while no row of the table
  is unvalidated with software.
\<close>

theorem device_report_invalid_counts_validated_rows:
  "map invalid (ValidatedSoftwareDeviceReportView_queryset db_div [validated_device]) = [1]
   \<and> length (filter (\<lambda>r. is_validated r = False \<and> software r \<noteq> None) [validated_device]) = 0"
  by (simp add: ValidatedSoftwareDeviceReportView_queryset_def order_by_desc_def
      values_distinct_def Count_def py_and_def validated_device_def)

text \<open>
  C2 (the code departs from the claim). The claim: the counts of every tally partition
  it, \<^verbatim>\<open>valid + invalid + no_software = total\<close>. In the per device type report table
  a validated device is counted as valid and, by the \<^verbatim>\<open>and\<close> in the filter, as invalid
  too: for the table of one validated device the row has \<^verbatim>\<open>total = 1\<close> and the three
  counts add up to 2.
\<close>

theorem device_report_counts_exceed_total:
  "map total (ValidatedSoftwareDeviceReportView_queryset db_div [validated_device]) = [1]
   \<and> map (\<lambda>t. valid t + invalid t + no_software t)
        (ValidatedSoftwareDeviceReportView_queryset db_div [validated_device]) = [2]"
  by (simp add: ValidatedSoftwareDeviceReportView_queryset_def order_by_desc_def
      values_distinct_def Count_def py_and_def validated_device_def)

subsection \<open>The order of the per-group tallies\<close>

text \<open>
  C5, counterexample. The claim: every per-group tally sequence is in descending order
  of \<^verbatim>\<open>total\<close>. The report table querysets end in \<^verbatim>\<open>.order_by("-valid_percent")\<close>:
  for the four example devices the row of the single \<^verbatim>\<open>MX480\<close> (100 percent) comes
  before the row of the three \<^verbatim>\<open>QFX5100\<close> (33 percent), so the totals read 1, 3.
\<close>

theorem report_table_not_ordered_by_total:
  "map total (ValidatedSoftwareDeviceReportView_queryset db_div_integer example_devices) = [1, 3]
   \<and> \<not> sorted (rev (map total
          (ValidatedSoftwareDeviceReportView_queryset db_div_integer example_devices)))"
  by (simp add: ValidatedSoftwareDeviceReportView_queryset_def order_by_desc_def
      values_distinct_def Count_def py_and_def example_devices_def validated_device_def
      db_div_integer_def)

text \<open>
  C5, amended. The breakdowns per platform and per manufacturer that are given to the
  bar chart are in descending order of \<^verbatim>\<open>total\<close>; the per device type and per
  inventory item report tables are in descending order of \<^verbatim>\<open>valid_percent\<close>.
\<close>

theorem per_group_tallies_order:
  "sorted (rev (map total (device_platform_qs device_filter device_rows)))
   \<and> sorted (rev (map total (inventory_platform_qs inventory_filter inventory_rows)))
   \<and> sorted (rev (map valid_percent
        (ValidatedSoftwareDeviceReportView_queryset db_div device_rows)))
   \<and> sorted (rev (map valid_percent
        (ValidatedSoftwareInventoryItemReportView_queryset db_div inventory_rows)))"
  unfolding device_platform_qs_def inventory_platform_qs_def
    ValidatedSoftwareDeviceReportView_queryset_def
    ValidatedSoftwareInventoryItemReportView_queryset_def
  by (intro conjI sorted_rev_order_by_desc)

subsection \<open>The percentage of a tally\<close>




lemma calculate_aggr_percentage_numeric:
  assumes "st aggr ''valid'' = Some v" and "st aggr ''total'' = Some t"
    and "numeric v = Some x" and "numeric t = Some y"
  shows "calculate_aggr_percentage aggr st =
           (Inr aggr,
            st(aggr := (st aggr)(''valid_percent'' \<mapsto>
                 (if y = 0 then VInt 0 else VFloat (py_round2 (x / y * 100))))))"
  using assms by (simp add: calculate_aggr_percentage_def getitem_def py_truediv_def)

lemma on_new_dict_calculate:
  assumes "d ''valid'' = Some v" and "d ''total'' = Some t"
    and "numeric v = Some x" and "numeric t = Some y"
  shows "on_new_dict calculate_aggr_percentage d =
           Inr (d(''valid_percent'' \<mapsto>
                 (if y = 0 then VInt 0 else VFloat (py_round2 (x / y * 100)))))"
proof -
  let ?st = "store_of d"
  have "calculate_aggr_percentage 0 ?st =
           (Inr 0, ?st(0 := (?st 0)(''valid_percent'' \<mapsto>
                 (if y = 0 then VInt 0 else VFloat (py_round2 (x / y * 100))))))"
    using calculate_aggr_percentage_numeric[of ?st 0 v t x y] assms by (simp add: store_of_def)
  then show ?thesis
    by (simp add: on_new_dict_def store_of_def)
qed

lemma device_global_aggr:
  "ValidatedSoftwareDeviceReportView_get_global_aggr (Some f) rows =
     Inr ([''total'' \<mapsto> VInt (int (length (filter f rows))),
           ''valid'' \<mapsto> VInt (int (length (filter is_validated (filter f rows)))),
           ''invalid'' \<mapsto> VInt (int (length (filter (\<lambda>r. \<not> is_validated r \<and> software r \<noteq> None) (filter f rows)))),
           ''no_software'' \<mapsto> VInt (int (length (filter (\<lambda>r. software r = None) (filter f rows)))),
           ''name'' \<mapsto> VStr ''Devices'',
           ''valid_percent'' \<mapsto>
              (if filter f rows = [] then VInt 0
               else VFloat (py_round2 (of_nat (length (filter is_validated (filter f rows)))
                                        / of_nat (length (filter f rows)) * 100)))])"
proof -
  let ?d = "[''total'' \<mapsto> VInt (int (length (filter f rows))),
           ''valid'' \<mapsto> VInt (int (length (filter is_validated (filter f rows)))),
           ''invalid'' \<mapsto> VInt (int (length (filter (\<lambda>r. \<not> is_validated r \<and> software r \<noteq> None) (filter f rows)))),
           ''no_software'' \<mapsto> VInt (int (length (filter (\<lambda>r. software r = None) (filter f rows)))),
           ''name'' \<mapsto> VStr ''Devices'']"
  have d: "ValidatedSoftwareDeviceReportView_get_global_aggr (Some f) rows =
             on_new_dict calculate_aggr_percentage ?d"
    by (simp add: ValidatedSoftwareDeviceReportView_get_global_aggr_def Count_def)
  have "on_new_dict calculate_aggr_percentage ?d =
          Inr (?d(''valid_percent'' \<mapsto>
             (if (of_nat (length (filter f rows)) :: rat) = 0 then VInt 0
              else VFloat (py_round2 (of_nat (length (filter is_validated (filter f rows)))
                                        / of_nat (length (filter f rows)) * 100)))))"
    by (rule on_new_dict_calculate
          [where v = "VInt (int (length (filter is_validated (filter f rows))))"
             and t = "VInt (int (length (filter f rows)))"]) simp_all
  with d show ?thesis by simp
qed











text \<open>That tally is what \<^verbatim>\<open>get_global_aggr\<close> returns when no row is selected.\<close>

lemma empty_selection_global_aggr:
  "filter f rows = [] \<Longrightarrow>
     ValidatedSoftwareDeviceReportView_get_global_aggr (Some f) rows =
       Inr (all_zero_aggregate(''valid_percent'' \<mapsto> VInt 0))"
  by (simp add: device_global_aggr all_zero_aggregate_def)




subsection \<open>The last full run decides\<close>

lemma fold_latest:
  fixes f :: "'r \<Rightarrow> 't::linorder"
  shows "fold (\<lambda>x best. if f best < f x then x else best) rs r \<in> set (r # rs)
   \<and> (\<forall>y \<in> set (r # rs). f y \<le> f (fold (\<lambda>x best. if f best < f x then x else best) rs r))"
proof (induction rs arbitrary: r)
  case Nil
  then show ?case by simp
next
  case (Cons x rs)
  let ?r' = "if f r < f x then x else r"
  from Cons.IH[of ?r'] show ?case
    by (auto split: if_splits)
qed

lemma latest_greatest:
  fixes f :: "'r \<Rightarrow> 't::linorder"
  assumes "rows \<noteq> []"
  shows "\<exists>r \<in> set rows. latest f rows = Inr r \<and> (\<forall>y \<in> set rows. f y \<le> f r)"
proof -
  from assms obtain x xs where rows: "rows = x # xs"
    by (cases rows) auto
  then show ?thesis
    using fold_latest[of f xs x] by (simp add: latest_def)
qed

text \<open>
  C8. \<^verbatim>\<open>report_last_run\<close> is computed from the rows of the full run type alone: it
  is the same for a table and for its full-run rows, so a row of another run type never
  changes it; when there is no full-run row it is \<^verbatim>\<open>None\<close>, not an exception;
  otherwise it is the \<^verbatim>\<open>last_run\<close> of a full-run row that no other full-run row
  exceeds in \<^verbatim>\<open>last_updated\<close>.
\<close>

theorem report_last_run_from_full_runs:
  "setup_report_last_run REPORT_FULL_RUN rows =
     setup_report_last_run REPORT_FULL_RUN (filter (\<lambda>r. run_type r = REPORT_FULL_RUN) rows)
   \<and> ((\<forall>r \<in> set rows. run_type r \<noteq> REPORT_FULL_RUN) \<longrightarrow>
        setup_report_last_run REPORT_FULL_RUN rows = Inr None)
   \<and> ((\<exists>r \<in> set rows. run_type r = REPORT_FULL_RUN) \<longrightarrow>
        (\<exists>r \<in> set rows. run_type r = REPORT_FULL_RUN
           \<and> (\<forall>r' \<in> set rows. run_type r' = REPORT_FULL_RUN \<longrightarrow> last_updated r' \<le> last_updated r)
           \<and> setup_report_last_run REPORT_FULL_RUN rows = Inr (last_run r)))"
proof (intro conjI impI)
  show "setup_report_last_run REPORT_FULL_RUN rows =
     setup_report_last_run REPORT_FULL_RUN (filter (\<lambda>r. run_type r = REPORT_FULL_RUN) rows)"
    by (simp add: setup_report_last_run_def)
next
  assume "\<forall>r \<in> set rows. run_type r \<noteq> REPORT_FULL_RUN"
  then have "filter (\<lambda>r. run_type r = REPORT_FULL_RUN) rows = []"
    by (simp add: filter_empty_conv)
  then show "setup_report_last_run REPORT_FULL_RUN rows = Inr None"
    by (simp add: setup_report_last_run_def latest_def)
next
  let ?full = "filter (\<lambda>r. run_type r = REPORT_FULL_RUN) rows"
  assume "\<exists>r \<in> set rows. run_type r = REPORT_FULL_RUN"
  then have "?full \<noteq> []"
    by (simp add: filter_empty_conv)
  from latest_greatest[OF this, of last_updated]
  obtain r where r: "r \<in> set ?full" "latest last_updated ?full = Inr r"
    "\<forall>y \<in> set ?full. last_updated y \<le> last_updated r"
    by blast
  from r(2) have "setup_report_last_run REPORT_FULL_RUN rows = Inr (last_run r)"
    by (simp add: setup_report_last_run_def)
  with r(1,3) show "\<exists>r \<in> set rows. run_type r = REPORT_FULL_RUN
           \<and> (\<forall>r' \<in> set rows. run_type r' = REPORT_FULL_RUN \<longrightarrow> last_updated r' \<le> last_updated r)
           \<and> setup_report_last_run REPORT_FULL_RUN rows = Inr (last_run r)"
    by auto
qed

text \<open>
  The full run updated at 300 decides, not the other run updated at 900; a table with
  no full run gives \<^verbatim>\<open>None\<close>.
\<close>

theorem report_last_run_from_full_runs_witness:
  "setup_report_last_run ''full-report-run'' example_runs = Inr (Some 300)
   \<and> setup_report_last_run ''full-report-run'' partial_runs_only = Inr None"
proof -
  have "\<forall>r \<in> set partial_runs_only. run_type r \<noteq> ''full-report-run''"
    by (simp add: partial_runs_only_def full_run_def)
  with report_last_run_from_full_runs[of "''full-report-run''" partial_runs_only]
  have 2: "setup_report_last_run ''full-report-run'' partial_runs_only = Inr None"
    by blast
  have "\<exists>r \<in> set example_runs. run_type r = ''full-report-run''"
    by (simp add: example_runs_def full_run_def)
  with report_last_run_from_full_runs[of "''full-report-run''" example_runs]
  obtain r where r: "r \<in> set example_runs" "run_type r = ''full-report-run''"
    "\<forall>r' \<in> set example_runs. run_type r' = ''full-report-run'' \<longrightarrow> last_updated r' \<le> last_updated r"
    "setup_report_last_run ''full-report-run'' example_runs = Inr (last_run r)"
    by blast
  from r(1,2,3) have "last_run r = Some 300"
    by (auto simp: example_runs_def full_run_def)
  with r(4) 2 show ?thesis by simp
qed

subsection \<open>Drawing the pie chart\<close>

lemma b64encode_nonempty: "bs \<noteq> [] \<Longrightarrow> b64encode bs \<noteq> []"
  by (cases bs rule: b64encode.cases) (simp_all add: Let_def)

lemma length_b64encode: "length (b64encode bs) = 4 * ((length bs + 2) div 3)"
  by (induction bs rule: b64encode.induct) (simp_all add: Let_def, arith)

lemma quote_byte_nonempty: "quote_byte c \<noteq> []"
  by (simp add: quote_byte_def)

lemma quote_nonempty: "s \<noteq> [] \<Longrightarrow> quote s \<noteq> []"
  by (cases s) (simp_all add: quote_def quote_byte_nonempty)

lemma getitems_present:
  "set ks \<subseteq> dom d \<Longrightarrow> getitems d ks = Inr (map (\<lambda>k. the (d k)) ks)"
  by (induction ks) (auto simp: getitem_def)

lemma piechart_drawn:
  assumes labels: "aggr_labels attrs = l0 # ls"
    and v: "aggr l0 = Some v" "v \<noteq> VNone"
    and sizes: "getitems aggr (l0 # ls) = Inr sizes"
    and pie: "pie lib sizes (chart_labels attrs) = None"
    and nm: "aggr ''name'' = Some nm"
    and png: "savefig lib
                (plt @ [Subplots, Pie sizes (chart_labels attrs), AxisEqual, Title nm, Savefig])
              = Inr png"
  shows "plot_piechart_visual lib aggr attrs plt =
           (Inr (Some (quote (b64encode png))),
            plt @ [Subplots, Pie sizes (chart_labels attrs), AxisEqual, Title nm, Savefig])"
  using v(2)
  by (cases v)
     (simp_all add: plot_piechart_visual_def labels v(1) sizes pie nm png getitem_def
        del: getitems.simps)

text \<open>
  C6, amended. \<^verbatim>\<open>plot_piechart_visual\<close> returns \<^verbatim>\<open>None\<close>, and draws nothing, when
  the first aggregation label (\<^verbatim>\<open>valid\<close>) is in the tally with a null value; it
  raises \<^verbatim>\<open>KeyError\<close> when that key is absent; and when the value is not null, the
  other labels and \<^verbatim>\<open>name\<close> are in the tally and the plotting library draws the pie
  and writes a non-empty image, it returns the URL-quoted base64 encoding of the image,
  a non-empty string.
\<close>

theorem piechart_result:
  "(aggr_labels attrs = l0 # ls \<and> aggr l0 = Some VNone \<longrightarrow>
      plot_piechart_visual lib aggr attrs plt = (Inr None, plt))
   \<and> (aggr_labels attrs = l0 # ls \<and> aggr l0 = None \<longrightarrow>
      plot_piechart_visual lib aggr attrs plt = (Inl (KeyError l0), plt))
   \<and> (aggr_labels attrs = l0 # ls \<and> aggr l0 \<noteq> Some VNone
       \<and> set (aggr_labels attrs) \<subseteq> dom aggr \<and> aggr ''name'' = Some nm
       \<and> sizes = map (\<lambda>k. the (aggr k)) (aggr_labels attrs)
       \<and> pie lib sizes (chart_labels attrs) = None
       \<and> savefig lib (plt @ [Subplots, Pie sizes (chart_labels attrs), AxisEqual, Title nm, Savefig])
           = Inr png
       \<and> png \<noteq> [] \<longrightarrow>
      fst (plot_piechart_visual lib aggr attrs plt) = Inr (Some (quote (b64encode png)))
      \<and> quote (b64encode png) \<noteq> [])"
proof (intro conjI impI)
  assume "aggr_labels attrs = l0 # ls \<and> aggr l0 = Some VNone"
  then show "plot_piechart_visual lib aggr attrs plt = (Inr None, plt)"
    by (simp add: plot_piechart_visual_def getitem_def)
next
  assume "aggr_labels attrs = l0 # ls \<and> aggr l0 = None"
  then show "plot_piechart_visual lib aggr attrs plt = (Inl (KeyError l0), plt)"
    by (simp add: plot_piechart_visual_def getitem_def)
next
  assume a: "aggr_labels attrs = l0 # ls \<and> aggr l0 \<noteq> Some VNone
       \<and> set (aggr_labels attrs) \<subseteq> dom aggr \<and> aggr ''name'' = Some nm
       \<and> sizes = map (\<lambda>k. the (aggr k)) (aggr_labels attrs)
       \<and> pie lib sizes (chart_labels attrs) = None
       \<and> savefig lib (plt @ [Subplots, Pie sizes (chart_labels attrs), AxisEqual, Title nm, Savefig])
           = Inr png
       \<and> png \<noteq> []"
  then have labels: "aggr_labels attrs = l0 # ls"
    and "set (aggr_labels attrs) \<subseteq> dom aggr"
    and sizes: "sizes = map (\<lambda>k. the (aggr k)) (aggr_labels attrs)"
    by blast+
  then have g: "getitems aggr (l0 # ls) = Inr sizes"
    using getitems_present[of "aggr_labels attrs" aggr] by simp
  from a labels obtain v where v: "aggr l0 = Some v" "v \<noteq> VNone"
    by auto
  from a have "pie lib sizes (chart_labels attrs) = None" and "aggr ''name'' = Some nm"
    and "savefig lib
           (plt @ [Subplots, Pie sizes (chart_labels attrs), AxisEqual, Title nm, Savefig])
         = Inr png"
    by blast+
  from piechart_drawn[OF labels v g this]
  show "fst (plot_piechart_visual lib aggr attrs plt) = Inr (Some (quote (b64encode png)))"
    by simp
  from a show "quote (b64encode png) \<noteq> []"
    by (simp add: quote_nonempty b64encode_nonempty)
qed

text \<open>
  C6, counterexample. The claim: no image (\<^verbatim>\<open>None\<close>) whenever \<^verbatim>\<open>valid\<close> is null
  or absent. For a dict without the key, \<^verbatim>\<open>aggr["valid"]\<close> raises \<^verbatim>\<open>KeyError\<close>.
\<close>

theorem piechart_without_valid_raises:
  "fst (plot_piechart_visual png_plotlib tally_without_valid setup_pie_chart_attrs [])
     = Inl (KeyError ''valid'')"
  by (simp add: plot_piechart_visual_def setup_pie_chart_attrs_def tally_without_valid_def
      getitem_def)

text \<open>The three cases, on the tallies above.\<close>

theorem piechart_result_witness:
  "plot_piechart_visual png_plotlib null_tally setup_pie_chart_attrs [] = (Inr None, [])
   \<and> plot_piechart_visual png_plotlib tally_without_valid setup_pie_chart_attrs []
       = (Inl (KeyError ''valid''), [])
   \<and> fst (plot_piechart_visual png_plotlib example_tally setup_pie_chart_attrs [])
       = Inr (Some ''iVBORw%3D%3D'')"
proof -
  note t = piechart_result[where lib = png_plotlib and attrs = setup_pie_chart_attrs
      and ?l0.0 = "''valid''" and ls = "[''invalid'', ''no_software'']" and plt = "[]"]
  have 1: "plot_piechart_visual png_plotlib null_tally setup_pie_chart_attrs [] = (Inr None, [])"
    using t[where aggr = null_tally] by (simp add: setup_pie_chart_attrs_def null_tally_def)
  have 2: "plot_piechart_visual png_plotlib tally_without_valid setup_pie_chart_attrs []
       = (Inl (KeyError ''valid''), [])"
    using t[where aggr = tally_without_valid]
    by (simp add: setup_pie_chart_attrs_def tally_without_valid_def)
  have e: "quote (b64encode [137, 80, 78, 71]) = ''iVBORw%3D%3D''"
    by (simp add: quote_def quote_byte_def quote_safe_def hex_digit_def b64_char_def
        b64_alphabet_def Let_def)
  have 3: "fst (plot_piechart_visual png_plotlib example_tally setup_pie_chart_attrs [])
       = Inr (Some ''iVBORw%3D%3D'')"
    using t[where aggr = example_tally and nm = "VStr ''Devices''"
        and sizes = "[VInt 7, VInt 2, VInt 1]" and png = "[137, 80, 78, 71]"] e
    by (simp add: setup_pie_chart_attrs_def example_tally_def example_aggregate_def
        png_plotlib_def)
  from 1 2 3 show ?thesis by blast
qed

text \<open>
  C7 (the code departs from the claim). The claim: for the all-zero tally, fields
  present and not null, \<^verbatim>\<open>plot_piechart_visual\<close> returns before it draws. The only
  guard is \<^verbatim>\<open>is None\<close> on the first field, and \<^verbatim>\<open>0 is None\<close> is false: whatever
  the plotting library does then, the first two calls it receives are
  \<^verbatim>\<open>subplots()\<close> and \<^verbatim>\<open>pie\<close> with the sizes 0, 0, 0.
\<close>

theorem all_zero_tally_reaches_pie:
  "take 2 (snd (plot_piechart_visual lib all_zero_tally setup_pie_chart_attrs []))
     = [Subplots, Pie [VInt 0, VInt 0, VInt 0] [''Valid'', ''Invalid'', ''No Software'']]"
  by (simp add: plot_piechart_visual_def setup_pie_chart_attrs_def all_zero_tally_def
      all_zero_aggregate_def getitem_def Let_def split: option.splits sum.splits)

text \<open>
  The counts of a global tally are results of \<^verbatim>\<open>Count\<close>, integers: the guard of
  \<^verbatim>\<open>plot_piechart_visual\<close> never holds for a tally that \<^verbatim>\<open>get_global_aggr\<close>
  returns, and the tally of an empty selection is the all-zero tally.
\<close>

lemma global_aggr_valid_not_null:
  assumes "ValidatedSoftwareDeviceReportView_get_global_aggr filterset rows = Inr d"
  shows "\<exists>n. d ''valid'' = Some (VInt n)"
proof (cases filterset)
  case None
  with assms show ?thesis
    by (simp add: ValidatedSoftwareDeviceReportView_get_global_aggr_def on_new_dict_def
        calculate_aggr_percentage_def getitem_def store_of_def)
next
  case (Some f)
  with assms show ?thesis
    by (auto simp: device_global_aggr)
qed

lemma empty_selection_all_zero_tally:
  "filter f rows = [] \<Longrightarrow>
     ValidatedSoftwareDeviceReportView_get_global_aggr (Some f) rows = Inr all_zero_tally"
  by (simp add: empty_selection_global_aggr all_zero_tally_def)

subsection \<open>Serializing the assigned object\<close>

text \<open>
  C9. The serialized \<^verbatim>\<open>assigned_to\<close> is null whenever the resolution of the
  polymorphic reference yields no object: the record has no content type or no object
  identifier, or the database has no object for the pair. When the pair resolves to an
  object, it is that object's nested representation, made by the nested serializer of
  the object's model with the request of the serializer's context.
\<close>

theorem assigned_to_nested_or_null:
  "(assigned_to db obj = None \<longrightarrow>
      get_assigned_to get_serializer_for_model context db obj = Inr None)
   \<and> (assigned_to_content_type obj = None \<or> assigned_to_object_id obj = None \<longrightarrow>
      get_assigned_to get_serializer_for_model context db obj = Inr None)
   \<and> (assigned_to_content_type obj = Some ct \<and> assigned_to_object_id obj = Some oid
       \<and> db (ct, oid) = None \<longrightarrow>
      get_assigned_to get_serializer_for_model context db obj = Inr None)
   \<and> (assigned_to_content_type obj = Some ct \<and> assigned_to_object_id obj = Some oid
       \<and> db (ct, oid) = Some target
       \<and> get_serializer_for_model target = Inr serializer
       \<and> context ''request'' = Some request \<longrightarrow>
      get_assigned_to get_serializer_for_model context db obj
        = Inr (Some (serializer request target)))"
  by (auto simp: get_assigned_to_def assigned_to_def split: option.splits)

text \<open>
  The record assigned to the device, the record whose device is gone, and a record
  without object identifier.
\<close>

theorem assigned_to_nested_or_null_witness:
  "get_assigned_to example_nested_serializer example_context example_db policy_for_device
     = Inr (Some [(''url'', ''https://nautobot.example/api/dcim/devices/core-router-1''),
                  (''name'', ''core-router-1'')])
   \<and> get_assigned_to example_nested_serializer example_context example_db
         policy_for_deleted_device = Inr None
   \<and> get_assigned_to example_nested_serializer example_context example_db
         (policy_for_device\<lparr>assigned_to_object_id := None\<rparr>) = Inr None"
proof -
  have 1: "get_assigned_to example_nested_serializer example_context example_db policy_for_device
     = Inr (Some [(''url'', ''https://nautobot.example/api/dcim/devices/core-router-1''),
                  (''name'', ''core-router-1'')])"
    using assigned_to_nested_or_null
        [of example_db policy_for_device example_nested_serializer example_context
            "''dcim.device''" 1 "''core-router-1''"
            "\<lambda>request obj. [(''url'', request @ ''/dcim/devices/'' @ obj), (''name'', obj)]"
            "''https://nautobot.example/api''"]
    by (simp add: policy_for_device_def example_db_def example_context_def
        example_nested_serializer_def)
  have 2: "get_assigned_to example_nested_serializer example_context example_db
         policy_for_deleted_device = Inr None"
    using assigned_to_nested_or_null
        [of example_db policy_for_deleted_device example_nested_serializer example_context
            "''dcim.device''" 2]
    by (simp add: policy_for_deleted_device_def example_db_def)
  have 3: "get_assigned_to example_nested_serializer example_context example_db
         (policy_for_device\<lparr>assigned_to_object_id := None\<rparr>) = Inr None"
    using assigned_to_nested_or_null
        [of example_db "policy_for_device\<lparr>assigned_to_object_id := None\<rparr>"
            example_nested_serializer example_context]
    by (simp add: policy_for_device_def)
  from 1 2 3 show ?thesis by blast
qed

subsection \<open>The counts on the other paths\<close>

lemma set_order_by_desc: "set (order_by_desc f ts) = set ts"
  by (simp add: order_by_desc_def)

lemma Count_partition:
  assumes "\<forall>r \<in> set g. is_validated r \<longrightarrow> software r \<noteq> None"
  shows "Count col Q_all g =
           Count col (Q (\<lambda>r. is_validated r = True)) g
         + Count col (Q_and (Q (\<lambda>r. is_validated r = False))
                            (Q_not (Q (\<lambda>r. software r = None)))) g
         + Count col (Q (\<lambda>r. software r = None)) g"
  using assms by (induction g) (auto simp: Count_def)

text \<open>
  A row of the per inventory item table, whose filter is written with \<^verbatim>\<open>&\<close>: its
  \<^verbatim>\<open>invalid\<close> counts the rows of its group that are not validated and have software,
  and its counts partition the group when no row of the group is validated without
  software.
\<close>

lemma in_values_distinct:
  assumes "t \<in> set (map F (values_distinct col rows))"
  shows "\<exists>k. t = F (k, filter (\<lambda>r. col r = k) rows)"
  using assms by (auto simp: values_distinct_def)

lemma inventory_report_rows:
  assumes "t \<in> set (ValidatedSoftwareInventoryItemReportView_queryset db_div rows)"
  shows "\<exists>g. set g \<subseteq> set rows
           \<and> invalid t = int (length (filter (\<lambda>r. \<not> is_validated r \<and> software r \<noteq> None) g))
           \<and> ((\<forall>r \<in> set g. is_validated r \<longrightarrow> software r \<noteq> None) \<longrightarrow>
                 valid t + invalid t + no_software t = total t)"
proof -
  from assms have "t \<in> set (map (\<lambda>(k, g).
          let col = (\<lambda>r. Some (inventory_item__name r));
              t = Count col Q_all g;
              v = Count col (Q (\<lambda>r. is_validated r = True)) g
          in \<lparr>grp = k, total = t, valid = v,
              invalid = Count col (Q_and (Q (\<lambda>r. is_validated r = False))
                                         (Q_not (Q (\<lambda>r. software r = None)))) g,
              no_software = Count col (Q (\<lambda>r. software r = None)) g,
              valid_percent = db_div (100 * v) t\<rparr>)
        (values_distinct (\<lambda>r. Some (inventory_item__name r)) rows))"
    (is "_ \<in> set (map ?F _)")
    unfolding ValidatedSoftwareInventoryItemReportView_queryset_def set_order_by_desc .
  from in_values_distinct[OF this]
  obtain k where t: "t = ?F (k, filter (\<lambda>r. Some (inventory_item__name r) = k) rows)"
    by (rule exE)
  let ?g = "filter (\<lambda>r. Some (inventory_item__name r) = k) rows"
  have "set ?g \<subseteq> set rows" by auto
  moreover have "invalid t = int (length (filter (\<lambda>r. \<not> is_validated r \<and> software r \<noteq> None) ?g))"
    by (simp add: t Let_def Count_def)
  moreover have "(\<forall>r \<in> set ?g. is_validated r \<longrightarrow> software r \<noteq> None) \<longrightarrow>
                 valid t + invalid t + no_software t = total t"
  proof
    assume "\<forall>r \<in> set ?g. is_validated r \<longrightarrow> software r \<noteq> None"
    from Count_partition[OF this, of "\<lambda>r. Some (inventory_item__name r)"]
    show "valid t + invalid t + no_software t = total t"
      by (simp add: t Let_def)
  qed
  ultimately show ?thesis by blast
qed

text \<open>
  A row of the per device type table, whose filter is written with \<^verbatim>\<open>and\<close>: its
  \<^verbatim>\<open>invalid\<close> counts every row of its group that has software, validated or not.
\<close>

lemma device_report_rows:
  assumes "t \<in> set (ValidatedSoftwareDeviceReportView_queryset db_div rows)"
  shows "\<exists>g. set g \<subseteq> set rows
           \<and> invalid t = int (length (filter (\<lambda>r. software r \<noteq> None) g))"
proof -
  from assms have "t \<in> set (map (\<lambda>(k, g).
          let col = (\<lambda>r. Some (device__device_type__model r));
              t = Count col Q_all g;
              v = Count col (Q (\<lambda>r. is_validated r = True)) g
          in \<lparr>grp = k, total = t, valid = v,
              invalid = Count col (py_and (Q (\<lambda>r. is_validated r = False))
                                          (Q_not (Q (\<lambda>r. software r = None)))) g,
              no_software = Count col (Q (\<lambda>r. software r = None)) g,
              valid_percent = db_div (100 * v) t\<rparr>)
        (values_distinct (\<lambda>r. Some (device__device_type__model r)) rows))"
    (is "_ \<in> set (map ?F _)")
    unfolding ValidatedSoftwareDeviceReportView_queryset_def set_order_by_desc .
  from in_values_distinct[OF this]
  obtain k where t: "t = ?F (k, filter (\<lambda>r. Some (device__device_type__model r) = k) rows)"
    by (rule exE)
  let ?g = "filter (\<lambda>r. Some (device__device_type__model r) = k) rows"
  have "set ?g \<subseteq> set rows" by auto
  moreover have "invalid t = int (length (filter (\<lambda>r. software r \<noteq> None) ?g))"
    by (simp add: t Let_def Count_def py_and_def)
  ultimately show ?thesis by blast
qed

text \<open>The counts of the global tally partition the selected rows.\<close>

lemma device_global_partition:
  assumes "\<forall>r \<in> set rows. is_validated r \<longrightarrow> software r \<noteq> None"
    and "ValidatedSoftwareDeviceReportView_get_global_aggr (Some f) rows = Inr d"
  shows "\<exists>t v i n. d ''total'' = Some (VInt t) \<and> d ''valid'' = Some (VInt v)
           \<and> d ''invalid'' = Some (VInt i) \<and> d ''no_software'' = Some (VInt n)
           \<and> v + i + n = t"
proof -
  have "\<forall>r \<in> set (filter f rows). is_validated r \<longrightarrow> software r \<noteq> None"
    using assms(1) by simp
  from Count_partition[OF this, of "\<lambda>r. Some (device r)"]
  have "int (length (filter f rows)) =
          int (length (filter is_validated (filter f rows)))
        + int (length (filter (\<lambda>r. \<not> is_validated r \<and> software r \<noteq> None) (filter f rows)))
        + int (length (filter (\<lambda>r. software r = None) (filter f rows)))"
    by (simp add: Count_def)
  with assms(2) show ?thesis
    by (auto simp: device_global_aggr)
qed

end
